theory Spec2Isabelle
  imports Main "HOL-Library.Word"
begin

section \<open>Constants of the tensor headers\<close>

text \<open>
  \<^verbatim>\<open>NNS_TENSOR_SIZE_LIMIT\<close>, \<^verbatim>\<open>NNS_TENSOR_RANK_LIMIT\<close> and the initial tensor type
  \<^verbatim>\<open>_NNS_END\<close> are declared in headers outside the sources at hand. Every function
  that uses one of them takes them as a parameter, so each result holds for whatever
  values the headers give.
\<close>

record nns_consts =
  SIZE_LIMIT :: nat
  RANK_LIMIT :: nat
  NNS_END :: "32 word"

section \<open>The flatbuffers converter, \<^verbatim>\<open>tensor_converter_flatbuf.cc\<close>\<close>

subsection \<open>What the generated accessors read from the mapped bytes\<close>

text \<open>
  \<^verbatim>\<open>GetTensors (in_info.data)\<close> and the accessors of the generated header follow
  offsets stored in the mapped bytes. The model takes their results as given: a pointer
  valued accessor is an \<open>option\<close> (\<open>None\<close> is the null pointer of an absent field), a
  scalar one a 32-bit word, as in the envelope layout of the spec. A byte vector is
  known by where its first element lies, counted from \<^verbatim>\<open>in_info.data\<close>, and by its
  stored length; nothing ties either number to the size of the mapped memory.
\<close>

record fb_vector =
  data_at :: nat
  vec_size :: "32 word"

record fb_frame_rate =
  fb_rate_n :: "32 word"
  fb_rate_d :: "32 word"

record fb_Tensor =
  fb_name :: "string option"
  fb_type :: "32 word"
  fb_dimension :: "32 word list option"
  fb_data :: "fb_vector option"

record fb_Tensors =
  fb_num_tensor :: "32 word"
  fb_fr :: "fb_frame_rate option"
  fb_format :: "32 word"
  fb_tensor :: "fb_Tensor list option"

subsection \<open>Host buffers\<close>

record GstMemory =
  mem_id :: nat
  mem_size :: nat
  mappable :: bool
  mapped :: fb_Tensors

text \<open>
  A memory made by \<^verbatim>\<open>gst_memory_share\<close>: it names its parent and copies no byte.
  The host makes the share it is asked for; it compares neither number with the size of
  the parent.
\<close>

record shared_memory =
  parent :: nat
  offset :: nat
  length_bytes :: nat

record GstBuffer =
  memory0 :: GstMemory
  metadata :: nat

record out_buffer =
  memories :: "shared_memory list"
  out_metadata :: "nat option"

record GstTensorInfo =
  name :: "string option"
  ttype :: "32 word"
  dimension :: "32 word list"

record GstTensorsInfo =
  num_tensors :: "32 word"
  format :: "32 word"
  info :: "GstTensorInfo list"

record GstTensorsConfig =
  tensors_info :: GstTensorsInfo
  rate_n :: "32 word"
  rate_d :: "32 word"

text \<open>
  Calls into the host that the converter makes, in the order it makes them. The log is
  part of the result, so that "no buffer was made" and "no memory was shared" are
  statements about a value.
\<close>

datatype host_call =
    log_error
  | buffer_peek_memory
  | memory_map
  | GetTensors
  | buffer_new
  | memory_share nat nat
  | buffer_append_memory
  | buffer_copy_into
  | memory_unmap

text \<open>
  Dereferencing a null pointer and indexing a flatbuffers vector past its end have no
  defined result in the source; the model stops there with a fault.
\<close>

datatype fault = NullDeref | OutOfRange

record fbc_result =
  out_buf :: "out_buffer option"
  config_after :: "GstTensorsConfig option"
  calls :: "host_call list"

record loop_state =
  ls_config :: GstTensorsConfig
  ls_memories :: "shared_memory list"
  ls_calls :: "host_call list"

subsection \<open>Helpers\<close>

text \<open>
  Modelled from the spec: \<^verbatim>\<open>gst_tensors_info_get_nth_info\<close> is defined outside the
  sources at hand. The spec's tensor set holds an ordered sequence of at most
  \<^verbatim>\<open>TENSOR_SET_LIMIT\<close> descriptors that consumers index by position; the helper
  returns the address of slot \<open>i\<close> of that sequence, and NULL past its end.
\<close>

definition gst_tensors_info_get_nth_info :: "GstTensorsInfo \<Rightarrow> nat \<Rightarrow> GstTensorInfo option" where
  "gst_tensors_info_get_nth_info ti i = (if i < length (info ti) then Some (info ti ! i) else None)"

definition set_nth_info :: "GstTensorsConfig \<Rightarrow> nat \<Rightarrow> GstTensorInfo \<Rightarrow> GstTensorsConfig" where
  "set_nth_info cfg i ni =
     cfg\<lparr>tensors_info := (tensors_info cfg)\<lparr>info := (info (tensors_info cfg))[i := ni]\<rparr>\<rparr>"

text \<open>\<^verbatim>\<open>const gchar *name = _name.c_str ()\<close> read by \<^verbatim>\<open>strlen\<close> and \<^verbatim>\<open>g_strdup\<close>: the
  characters before the first NUL.\<close>

definition c_str :: "string \<Rightarrow> string" where
  "c_str s = takeWhile (\<lambda>c. c \<noteq> CHR 0x00) s"

definition VectorLength :: "fb_vector option \<Rightarrow> 32 word" where
  "VectorLength v = (case v of None \<Rightarrow> 0 | Some d \<Rightarrow> vec_size d)"

text \<open>The inner loop, lines 120 to 122: \<^verbatim>\<open>_info->dimension[j] = ...->dimension ()->Get (j)\<close>.\<close>

fun copy_dimension :: "32 word list option \<Rightarrow> nat list \<Rightarrow> 32 word list \<Rightarrow> fault + 32 word list" where
  "copy_dimension dv [] dim = Inr dim"
| "copy_dimension dv (j # js) dim =
     (case dv of
        None \<Rightarrow> Inl NullDeref
      | Some ds \<Rightarrow>
          if j < length ds then copy_dimension dv js (dim[j := ds ! j]) else Inl OutOfRange)"

text \<open>One round of the loop over the tensors, lines 109 to 129.\<close>

definition convert_tensor ::
  "nns_consts \<Rightarrow> GstMemory \<Rightarrow> fb_Tensor list option \<Rightarrow> nat \<Rightarrow> loop_state \<Rightarrow> fault + loop_state" where
  "convert_tensor K in_mem tensor i st =
     (case tensor of
        None \<Rightarrow> Inl NullDeref
      | Some ts \<Rightarrow>
          if length ts \<le> i then Inl OutOfRange
          else
            (case fb_name (ts ! i) of
               None \<Rightarrow> Inl NullDeref
             | Some nm \<Rightarrow>
                 (case gst_tensors_info_get_nth_info (tensors_info (ls_config st)) i of
                    None \<Rightarrow> Inl NullDeref
                  | Some slot \<Rightarrow>
                      let info1 = slot\<lparr>name := (if c_str nm \<noteq> [] then Some (c_str nm) else None),
                                      ttype := fb_type (ts ! i)\<rparr>;
                          tensor_data = fb_data (ts ! i)
                      in (case copy_dimension (fb_dimension (ts ! i)) [0..<RANK_LIMIT K] (dimension info1) of
                            Inl f \<Rightarrow> Inl f
                          | Inr dim \<Rightarrow>
                              let msize = unat (VectorLength tensor_data)
                              in (case tensor_data of
                                    None \<Rightarrow> Inl NullDeref
                                  | Some d \<Rightarrow>
                                      Inr \<lparr>ls_config = set_nth_info (ls_config st) i (info1\<lparr>dimension := dim\<rparr>),
                                           ls_memories = ls_memories st @
                                             [\<lparr>parent = mem_id in_mem, offset = data_at d, length_bytes = msize\<rparr>],
                                           ls_calls = ls_calls st @
                                             [memory_share (data_at d) msize, buffer_append_memory]\<rparr>)))))"

fun convert_tensors ::
  "nns_consts \<Rightarrow> GstMemory \<Rightarrow> fb_Tensor list option \<Rightarrow> nat list \<Rightarrow> loop_state \<Rightarrow> fault + loop_state" where
  "convert_tensors K in_mem tensor [] st = Inr st"
| "convert_tensors K in_mem tensor (i # is) st =
     (case convert_tensor K in_mem tensor i st of
        Inl f \<Rightarrow> Inl f
      | Inr st' \<Rightarrow> convert_tensors K in_mem tensor is st')"

subsection \<open>\<^verbatim>\<open>fbc_convert\<close>\<close>

text \<open>
  \<^verbatim>\<open>g_assert (tensors)\<close> cannot fail: \<^verbatim>\<open>GetTensors\<close> returns an address inside the
  mapping. The two stores of lines 95 and 96 come before the test of line 98.
\<close>

definition fbc_convert ::
  "nns_consts \<Rightarrow> GstBuffer option \<Rightarrow> GstTensorsConfig option \<Rightarrow> fault + fbc_result" where
  "fbc_convert K in_buf config =
     (case in_buf of
        None \<Rightarrow> Inr \<lparr>out_buf = None, config_after = config, calls = [log_error]\<rparr>
      | Some b \<Rightarrow>
          (case config of
             None \<Rightarrow> Inr \<lparr>out_buf = None, config_after = config, calls = [log_error]\<rparr>
           | Some cfg \<Rightarrow>
               let in_mem = memory0 b
               in if \<not> mappable in_mem
                  then Inr \<lparr>out_buf = None, config_after = Some cfg,
                            calls = [buffer_peek_memory, memory_map, log_error]\<rparr>
                  else
                    let tensors = mapped in_mem;
                        cfg1 = cfg\<lparr>tensors_info := (tensors_info cfg)
                                 \<lparr>num_tensors := fb_num_tensor tensors, format := fb_format tensors\<rparr>\<rparr>;
                        tr = [buffer_peek_memory, memory_map, GetTensors]
                    in if SIZE_LIMIT K < unat (fb_num_tensor tensors)
                       then Inr \<lparr>out_buf = None, config_after = Some cfg1,
                                 calls = tr @ [log_error, memory_unmap]\<rparr>
                       else
                         (case fb_fr tensors of
                            None \<Rightarrow> Inl NullDeref
                          | Some fr \<Rightarrow>
                              let cfg2 = cfg1\<lparr>rate_n := fb_rate_n fr, rate_d := fb_rate_d fr\<rparr>
                              in (case convert_tensors K in_mem (fb_tensor tensors)
                                         [0..<unat (num_tensors (tensors_info cfg2))]
                                         \<lparr>ls_config = cfg2, ls_memories = [], ls_calls = tr @ [buffer_new]\<rparr> of
                                    Inl f \<Rightarrow> Inl f
                                  | Inr st \<Rightarrow>
                                      Inr \<lparr>out_buf = Some \<lparr>memories = ls_memories st,
                                                           out_metadata = Some (metadata b)\<rparr>,
                                           config_after = Some (ls_config st),
                                           calls = ls_calls st @ [buffer_copy_into, memory_unmap]\<rparr>))))"

section \<open>The ExecuTorch filter, \<^verbatim>\<open>tensor_filter_executorch.cc\<close>\<close>

subsection \<open>Tensor metadata helpers\<close>

text \<open>
  Modelled from the spec: \<^verbatim>\<open>gst_tensors_info_init\<close> is defined outside the sources at
  hand. An instance that is not configured holds no tensor metadata: the count is 0 and
  no slot has a name; each slot has the fixed number of dimensions.
\<close>

definition gst_tensor_info_init :: "nns_consts \<Rightarrow> GstTensorInfo" where
  "gst_tensor_info_init K =
     \<lparr>name = None, ttype = NNS_END K, dimension = replicate (RANK_LIMIT K) 0\<rparr>"

definition gst_tensors_info_init :: "nns_consts \<Rightarrow> GstTensorsInfo" where
  "gst_tensors_info_init K =
     \<lparr>num_tensors = 0, format = 0, info = replicate (SIZE_LIMIT K) (gst_tensor_info_init K)\<rparr>"

text \<open>
  Modelled from the spec: \<^verbatim>\<open>gst_tensors_info_free\<close> is defined outside the sources at
  hand. Teardown releases the shape metadata, which leaves the metadata of an instance
  that is not configured.
\<close>

definition gst_tensors_info_free :: "nns_consts \<Rightarrow> GstTensorsInfo \<Rightarrow> GstTensorsInfo" where
  "gst_tensors_info_free K ti = gst_tensors_info_init K"

subsection \<open>The engine, as the filter sees it\<close>

text \<open>
  The runtime is a collaborator: each of its calls is a field of the record below, and
  says what the call answers. \<open>NDEBUG\<close> tells whether \<^verbatim>\<open>assert\<close> is compiled out.
\<close>

datatype Error = Ok | Failed "32 word"

record Method =
  program_file :: string
  loaded_method :: string
  planned_memory :: "nat list"

record engine =
  file_test_is_regular :: "string \<Rightarrow> bool"
  FileDataLoader_from :: "string \<Rightarrow> Error"
  Program_load :: "string \<Rightarrow> Error"
  get_method_name :: "string \<Rightarrow> string option"
  method_meta :: "string \<Rightarrow> string \<Rightarrow> nat list option"
  load_method :: "string \<Rightarrow> string \<Rightarrow> Error"
  set_input :: "Method \<Rightarrow> nat \<Rightarrow> Error"
  execute :: "Method \<Rightarrow> Error"
  set_output_data_ptr :: "Method \<Rightarrow> nat \<Rightarrow> Error"
  NDEBUG :: bool

subsection \<open>Planned buffers on the heap\<close>

text \<open>
  The heap holds the arrays made by \<^verbatim>\<open>std::make_unique<uint8_t[]>\<close>: the address and
  the size of each array that has been allocated and not yet freed. Allocation is taken
  to succeed.
\<close>

record heap =
  next_addr :: nat
  live :: "(nat \<times> nat) list"

definition make_unique :: "heap \<Rightarrow> nat \<Rightarrow> heap \<times> nat" where
  "make_unique h n = (h\<lparr>next_addr := Suc (next_addr h), live := live h @ [(next_addr h, n)]\<rparr>, next_addr h)"

definition free_array :: "heap \<Rightarrow> nat \<Rightarrow> heap" where
  "free_array h a = h\<lparr>live := filter (\<lambda>e. fst e \<noteq> a) (live h)\<rparr>"

text \<open>
  Lines 196 to 204. \<open>spans\<close> stands for both vectors, \<^verbatim>\<open>planned_buffers\<close> (the owners)
  and \<^verbatim>\<open>planned_spans\<close> (address and size); they grow together.
\<close>

fun plan_buffers :: "nat list \<Rightarrow> heap \<Rightarrow> (nat \<times> nat) list \<Rightarrow> heap \<times> (nat \<times> nat) list" where
  "plan_buffers [] h spans = (h, spans)"
| "plan_buffers (buffer_size # rest) h spans =
     (case make_unique h buffer_size of
        (h', a) \<Rightarrow> plan_buffers rest h' (spans @ [(a, buffer_size)]))"

text \<open>
  \<^verbatim>\<open>planned_buffers\<close> is a local variable of the \<^verbatim>\<open>try\<close> block (line 194). When the
  block is left its destructor runs, and each \<^verbatim>\<open>unique_ptr\<close> frees its array.
\<close>

fun destroy_planned_buffers :: "(nat \<times> nat) list \<Rightarrow> heap \<Rightarrow> heap" where
  "destroy_planned_buffers [] h = h"
| "destroy_planned_buffers (sp # rest) h = destroy_planned_buffers rest (free_array h (fst sp))"

subsection \<open>The instance\<close>

text \<open>The member \<^verbatim>\<open>std::unique_ptr<Result<Method>> method\<close> is the field
  \<open>method_result\<close>: \<open>None\<close> is the null pointer, \<open>Inl\<close> a result that is not ok.\<close>

record executorch_subplugin =
  configured :: bool
  model_path :: "string option"
  inputInfo :: GstTensorsInfo
  outputInfo :: GstTensorsInfo
  method_result :: "(Error + Method) option"
  method_name :: "string option"

record GstTensorFilterProperties =
  model_files :: "string list"

record GstTensorMemory =
  data :: nat
  size_bytes :: nat

datatype exn = invalid_argument string | runtime_error string

text \<open>
  How a call ends: it returns, it throws, the process is aborted (\<^verbatim>\<open>ET_CHECK_MSG\<close> of
  the runtime logs and calls \<^verbatim>\<open>runtime_abort\<close>; a failed \<^verbatim>\<open>assert\<close> calls
  \<^verbatim>\<open>abort\<close>), or the behaviour is undefined.
\<close>

datatype 'a outcome = Returns 'a | Throws exn 'a | Aborts | Faults fault

text \<open>The constructor, lines 103 to 109. \<^verbatim>\<open>method\<close> has no initialiser: it is a null
  \<^verbatim>\<open>unique_ptr\<close>.\<close>

definition new_instance :: "nns_consts \<Rightarrow> executorch_subplugin" where
  "new_instance K =
     \<lparr>configured = False, model_path = None,
      inputInfo = gst_tensors_info_init K, outputInfo = gst_tensors_info_init K,
      method_result = None, method_name = None\<rparr>"

definition cleanup :: "nns_consts \<Rightarrow> executorch_subplugin \<Rightarrow> executorch_subplugin" where
  "cleanup K s =
     (let s1 = s\<lparr>model_path := None\<rparr>
      in if \<not> configured s1 then s1
         else s1\<lparr>inputInfo := gst_tensors_info_free K (inputInfo s1),
                 outputInfo := gst_tensors_info_free K (outputInfo s1),
                 method_name := None,
                 configured := False\<rparr>)"

definition not_valid_message :: "string \<Rightarrow> string" where
  "not_valid_message file = ''Given file '' @ file @ '' is not valid''"

definition configure_instance ::
  "nns_consts \<Rightarrow> engine \<Rightarrow> GstTensorFilterProperties \<Rightarrow> executorch_subplugin \<times> heap
     \<Rightarrow> (executorch_subplugin \<times> heap) outcome" where
  "configure_instance K E prop sh =
     (case sh of (s, h) \<Rightarrow>
        let s0 = (if configured s then cleanup K s else s)
        in (case model_files prop of
              [] \<Rightarrow> Faults NullDeref
            | file # _ \<Rightarrow>
                if \<not> file_test_is_regular E file
                then Throws (invalid_argument (not_valid_message file)) (cleanup K s0, h)
                else
                  let s1 = s0\<lparr>model_path := Some file\<rparr>
                  in if FileDataLoader_from E file \<noteq> Ok then Aborts
                     else if Program_load E file \<noteq> Ok then Returns (s1, h)
                     else
                       (case get_method_name E file of
                          None \<Rightarrow> Aborts
                        | Some mname \<Rightarrow>
                            let s2 = s1\<lparr>method_name := Some mname\<rparr>
                            in (case method_meta E file mname of
                                  None \<Rightarrow> Aborts
                                | Some sizes \<Rightarrow>
                                    (case plan_buffers sizes h [] of
                                       (h1, spans) \<Rightarrow>
                                         let loaded =
                                               (case load_method E file mname of
                                                  Ok \<Rightarrow> Inr \<lparr>program_file = file, loaded_method = mname,
                                                              planned_memory = map fst spans\<rparr>
                                                | Failed c \<Rightarrow> Inl (Failed c));
                                             s3 = s2\<lparr>method_result := Some loaded\<rparr>
                                         in (case loaded of
                                               Inl e \<Rightarrow> Aborts
                                             | Inr m \<Rightarrow>
                                                 Returns (s3\<lparr>configured := True\<rparr>,
                                                          destroy_planned_buffers spans h1)))))))"

subsection \<open>\<^verbatim>\<open>invoke\<close>\<close>

text \<open>
  The first loop, lines 249 to 254. \<^verbatim>\<open>input\<close> is a C array; the list gives the
  entries the caller has provided, and reading past them is undefined.
\<close>

fun set_inputs ::
  "engine \<Rightarrow> Method \<Rightarrow> GstTensorsInfo \<Rightarrow> GstTensorMemory list \<Rightarrow> nat list \<Rightarrow> unit outcome" where
  "set_inputs E m ti input [] = Returns ()"
| "set_inputs E m ti input (i # is) =
     (case gst_tensors_info_get_nth_info ti i of
        None \<Rightarrow> Faults NullDeref
      | Some nth_info \<Rightarrow>
          if length input \<le> i then Faults OutOfRange
          else if set_input E m i \<noteq> Ok \<and> \<not> NDEBUG E then Aborts
          else set_inputs E m ti input is)"

text \<open>The second loop, lines 263 to 268. The value of \<^verbatim>\<open>get_output\<close> is not used.\<close>

fun get_outputs :: "engine \<Rightarrow> Method \<Rightarrow> GstTensorMemory list \<Rightarrow> nat list \<Rightarrow> unit outcome" where
  "get_outputs E m output [] = Returns ()"
| "get_outputs E m output (i # is) =
     (if length output \<le> i then Faults OutOfRange
      else if set_output_data_ptr E m i \<noteq> Ok \<and> \<not> NDEBUG E then Aborts
      else get_outputs E m output is)"

text \<open>
  \<^verbatim>\<open>invoke\<close> reads the instance and stores nothing in it. It tests neither
  \<^verbatim>\<open>configured\<close> nor whether \<^verbatim>\<open>method\<close> is null before \<^verbatim>\<open>method->ok ()\<close>.
\<close>

definition invoke ::
  "engine \<Rightarrow> GstTensorMemory list option \<Rightarrow> GstTensorMemory list option \<Rightarrow> executorch_subplugin
     \<Rightarrow> executorch_subplugin outcome" where
  "invoke E input output s =
     (case input of
        None \<Rightarrow> Throws (runtime_error ''Invalid input buffer, it is NULL.'') s
      | Some inp \<Rightarrow>
          (case output of
             None \<Rightarrow> Throws (runtime_error ''Invalid output buffer, it is NULL.'') s
           | Some outp \<Rightarrow>
               (case method_result s of
                  None \<Rightarrow> Faults NullDeref
                | Some (Inl e) \<Rightarrow> Throws (runtime_error ''Method is not properly initialized.'') s
                | Some (Inr m) \<Rightarrow>
                    (case set_inputs E m (inputInfo s) inp [0..<unat (num_tensors (inputInfo s))] of
                       Returns u \<Rightarrow>
                         if execute E m \<noteq> Ok then Aborts
                         else
                           (case get_outputs E m outp [0..<unat (num_tensors (outputInfo s))] of
                              Returns u' \<Rightarrow> Returns s
                            | Throws x u' \<Rightarrow> Throws x s
                            | Aborts \<Rightarrow> Aborts
                            | Faults f \<Rightarrow> Faults f)
                     | Throws x u \<Rightarrow> Throws x s
                     | Aborts \<Rightarrow> Aborts
                     | Faults f \<Rightarrow> Faults f))))"

section \<open>Notions used in the statements\<close>

text \<open>
  A tensor of the envelope can be read by the loop when the pointers the loop
  dereferences are there: its name, its data vector, and a dimension vector with an
  entry for every rank. The envelope layout lets a tensor leave its name out; such a
  tensor is not readable by this loop.
\<close>

definition tensor_readable :: "nns_consts \<Rightarrow> fb_Tensor \<Rightarrow> bool" where
  "tensor_readable K t \<longleftrightarrow>
     fb_name t \<noteq> None \<and> fb_data t \<noteq> None \<and>
     (case fb_dimension t of None \<Rightarrow> False | Some ds \<Rightarrow> RANK_LIMIT K \<le> length ds)"

text \<open>
  The envelopes the loop reads to the end: the memory can be mapped, the frame rate is
  present, the count is within the limit and is the length of the tensor vector, and
  every tensor can be read. Nothing is asked of the byte ranges.
\<close>

definition valid_envelope :: "nns_consts \<Rightarrow> GstBuffer \<Rightarrow> bool" where
  "valid_envelope K b \<longleftrightarrow>
     mappable (memory0 b) \<and> fb_fr (mapped (memory0 b)) \<noteq> None \<and>
     unat (fb_num_tensor (mapped (memory0 b))) \<le> SIZE_LIMIT K \<and>
     (case fb_tensor (mapped (memory0 b)) of
        None \<Rightarrow> False
      | Some ts \<Rightarrow>
          length ts = unat (fb_num_tensor (mapped (memory0 b))) \<and> list_all (tensor_readable K) ts)"

definition declared_tensors :: "GstBuffer \<Rightarrow> fb_Tensor list" where
  "declared_tensors b = (case fb_tensor (mapped (memory0 b)) of None \<Rightarrow> [] | Some ts \<Rightarrow> ts)"

text \<open>The caller's info array has a slot for every index below the limit.\<close>

definition config_has_room :: "nns_consts \<Rightarrow> GstTensorsConfig \<Rightarrow> bool" where
  "config_has_room K cfg \<longleftrightarrow> SIZE_LIMIT K \<le> length (info (tensors_info cfg))"

text \<open>The view a tensor declares: its data vector's place and length, on the input memory.\<close>

definition declared_view :: "GstMemory \<Rightarrow> fb_Tensor \<Rightarrow> shared_memory option" where
  "declared_view in_mem t =
     map_option (\<lambda>d. \<lparr>parent = mem_id in_mem, offset = data_at d, length_bytes = unat (vec_size d)\<rparr>)
       (fb_data t)"



text \<open>What the caller of \<^verbatim>\<open>fbc_convert\<close> can see of a result.\<close>

definition emitted_views :: "fault + fbc_result \<Rightarrow> shared_memory list option" where
  "emitted_views res = (case res of Inl f \<Rightarrow> None | Inr r \<Rightarrow> map_option memories (out_buf r))"

definition config_left :: "fault + fbc_result \<Rightarrow> GstTensorsConfig option" where
  "config_left res = (case res of Inl f \<Rightarrow> None | Inr r \<Rightarrow> config_after r)"

section \<open>Example inputs\<close>

definition K0 :: nns_consts where
  "K0 = \<lparr>SIZE_LIMIT = 16, RANK_LIMIT = 4, NNS_END = 11\<rparr>"

definition cfg0 :: GstTensorsConfig where
  "cfg0 = \<lparr>tensors_info = gst_tensors_info_init K0, rate_n = 0, rate_d = 0\<rparr>"

text \<open>The scenario of two tensors in a buffer of 8192 bytes.\<close>

definition two_tensors :: fb_Tensors where
  "two_tensors =
     \<lparr>fb_num_tensor = 2, fb_fr = Some \<lparr>fb_rate_n = 30, fb_rate_d = 1\<rparr>, fb_format = 0,
      fb_tensor = Some
        [\<lparr>fb_name = Some ''a'', fb_type = 7, fb_dimension = Some [1, 3, 2, 2],
          fb_data = Some \<lparr>data_at = 64, vec_size = 48\<rparr>\<rparr>,
         \<lparr>fb_name = Some [], fb_type = 5, fb_dimension = Some [1, 1, 1, 10],
          fb_data = Some \<lparr>data_at = 112, vec_size = 10\<rparr>\<rparr>]\<rparr>"

definition two_tensor_buffer :: GstBuffer where
  "two_tensor_buffer =
     \<lparr>memory0 = \<lparr>mem_id = 1, mem_size = 8192, mappable = True, mapped = two_tensors\<rparr>,
      metadata = 7\<rparr>"

text \<open>
  The same scenario with the name of the second tensor left out of the envelope: the
  accessor \<^verbatim>\<open>name ()\<close> of that tensor returns the null pointer.
\<close>

definition unnamed_tensors :: fb_Tensors where
  "unnamed_tensors =
     \<lparr>fb_num_tensor = 2, fb_fr = Some \<lparr>fb_rate_n = 30, fb_rate_d = 1\<rparr>, fb_format = 0,
      fb_tensor = Some
        [\<lparr>fb_name = Some ''a'', fb_type = 7, fb_dimension = Some [1, 3, 2, 2],
          fb_data = Some \<lparr>data_at = 64, vec_size = 48\<rparr>\<rparr>,
         \<lparr>fb_name = None, fb_type = 5, fb_dimension = Some [1, 1, 1, 10],
          fb_data = Some \<lparr>data_at = 112, vec_size = 10\<rparr>\<rparr>]\<rparr>"

definition unnamed_tensor_buffer :: GstBuffer where
  "unnamed_tensor_buffer =
     \<lparr>memory0 = \<lparr>mem_id = 4, mem_size = 8192, mappable = True, mapped = unnamed_tensors\<rparr>,
      metadata = 10\<rparr>"


text \<open>An envelope that declares 17 tensors and format 1.\<close>

definition crowded_buffer :: GstBuffer where
  "crowded_buffer =
     \<lparr>memory0 = \<lparr>mem_id = 3, mem_size = 8192, mappable = True,
                 mapped = \<lparr>fb_num_tensor = 17, fb_fr = Some \<lparr>fb_rate_n = 30, fb_rate_d = 1\<rparr>,
                           fb_format = 1, fb_tensor = Some []\<rparr>\<rparr>,
      metadata = 9\<rparr>"

text \<open>An engine for which every call succeeds; the method has two planned buffers.\<close>

definition good_engine :: engine where
  "good_engine =
     \<lparr>file_test_is_regular = (\<lambda>f. f = ''model.pte''),
      FileDataLoader_from = (\<lambda>f. Ok),
      Program_load = (\<lambda>f. Ok),
      get_method_name = (\<lambda>f. Some ''forward''),
      method_meta = (\<lambda>f n. Some [16, 32]),
      load_method = (\<lambda>f n. Ok),
      set_input = (\<lambda>m i. Ok),
      execute = (\<lambda>m. Ok),
      set_output_data_ptr = (\<lambda>m i. Ok),
      NDEBUG = False\<rparr>"

definition execute_fails :: engine where
  "execute_fails = good_engine\<lparr>execute := (\<lambda>m. Failed 1)\<rparr>"

definition execute_fails_later :: engine where
  "execute_fails_later = good_engine\<lparr>execute := (\<lambda>m. Failed 18)\<rparr>"

definition loader_fails :: engine where
  "loader_fails = good_engine\<lparr>FileDataLoader_from := (\<lambda>f. Failed 34)\<rparr>"

definition program_load_fails :: engine where
  "program_load_fails = good_engine\<lparr>Program_load := (\<lambda>f. Failed 35)\<rparr>"

definition method_load_fails :: engine where
  "method_load_fails = good_engine\<lparr>load_method := (\<lambda>f n. Failed 33)\<rparr>"

definition prop_model :: GstTensorFilterProperties where
  "prop_model = \<lparr>model_files = [''model.pte'']\<rparr>"

definition prop_missing :: GstTensorFilterProperties where
  "prop_missing = \<lparr>model_files = [''missing.pte'']\<rparr>"

definition empty_heap :: heap where
  "empty_heap = \<lparr>next_addr = 0, live = []\<rparr>"

text \<open>The instance after one successful \<^verbatim>\<open>configure_instance\<close> with \<open>good_engine\<close>.\<close>

definition configured_example :: executorch_subplugin where
  "configured_example =
     \<lparr>configured = True, model_path = Some ''model.pte'',
      inputInfo = gst_tensors_info_init K0, outputInfo = gst_tensors_info_init K0,
      method_result = Some (Inr \<lparr>program_file = ''model.pte'', loaded_method = ''forward'',
                                 planned_memory = [0, 1]\<rparr>),
      method_name = Some ''forward''\<rparr>"

text \<open>The instance after a second \<^verbatim>\<open>configure_instance\<close> that names a missing file.\<close>

definition stale_example :: executorch_subplugin where
  "stale_example = (new_instance K0)\<lparr>method_result := method_result configured_example\<rparr>"

section \<open>The converter: the loop over the tensors\<close>

lemma copy_dimension_ok:
  "\<forall>j\<in>set js. j < length ds \<Longrightarrow> \<exists>dim'. copy_dimension (Some ds) js dim = Inr dim'"
  by (induction js arbitrary: dim) auto

lemma length_info_set_nth_info:
  "length (info (tensors_info (set_nth_info cfg i ni))) = length (info (tensors_info cfg))"
  by (simp add: set_nth_info_def)

text \<open>One round on a readable tensor appends the view the tensor declares.\<close>

lemma convert_tensor_ok:
  assumes "i < length ts" "tensor_readable K (ts ! i)"
    and "i < length (info (tensors_info (ls_config st)))"
  shows "\<exists>st'. convert_tensor K in_mem (Some ts) i st = Inr st'
           \<and> map Some (ls_memories st') = map Some (ls_memories st) @ [declared_view in_mem (ts ! i)]
           \<and> length (info (tensors_info (ls_config st'))) = length (info (tensors_info (ls_config st)))"
proof -
  from assms(2) obtain nm d ds where
    t: "fb_name (ts ! i) = Some nm" "fb_data (ts ! i) = Some d" "fb_dimension (ts ! i) = Some ds"
      "RANK_LIMIT K \<le> length ds"
    by (auto simp: tensor_readable_def split: option.splits)
  have "\<forall>j\<in>set [0..<RANK_LIMIT K]. j < length ds"
    using t(4) by auto
  from copy_dimension_ok [OF this] obtain dim' where
    "copy_dimension (Some ds) [0..<RANK_LIMIT K]
       (dimension ((info (tensors_info (ls_config st)) ! i)
          \<lparr>name := (if c_str nm \<noteq> [] then Some (c_str nm) else None), ttype := fb_type (ts ! i)\<rparr>))
     = Inr dim'"
    by blast
  with assms(1,3) t show ?thesis
    by (simp add: convert_tensor_def gst_tensors_info_get_nth_info_def Let_def declared_view_def
        VectorLength_def length_info_set_nth_info)
qed

lemma convert_tensors_ok:
  assumes "list_all (tensor_readable K) ts"
    and "\<forall>i\<in>set is. i < length ts \<and> i < length (info (tensors_info (ls_config st)))"
  shows "\<exists>st'. convert_tensors K in_mem (Some ts) is st = Inr st'
           \<and> map Some (ls_memories st')
               = map Some (ls_memories st) @ map (\<lambda>i. declared_view in_mem (ts ! i)) is"
  using assms(2)
proof (induction "is" arbitrary: st)
  case Nil
  then show ?case by simp
next
  case (Cons i "is")
  have "tensor_readable K (ts ! i)"
    using assms(1) Cons.prems by (simp add: list_all_length)
  with Cons.prems convert_tensor_ok [of i ts K st in_mem] obtain st1 where
    st1: "convert_tensor K in_mem (Some ts) i st = Inr st1"
      "map Some (ls_memories st1) = map Some (ls_memories st) @ [declared_view in_mem (ts ! i)]"
      "length (info (tensors_info (ls_config st1))) = length (info (tensors_info (ls_config st)))"
    by auto
  have "\<forall>k\<in>set is. k < length ts \<and> k < length (info (tensors_info (ls_config st1)))"
    using Cons.prems st1(3) by simp
  from Cons.IH [OF this] obtain st' where
    "convert_tensors K in_mem (Some ts) is st1 = Inr st'"
    "map Some (ls_memories st')
       = map Some (ls_memories st1) @ map (\<lambda>i. declared_view in_mem (ts ! i)) is"
    by blast
  with st1 show ?case by simp
qed

text \<open>On a valid envelope the call returns a buffer whose memories are the declared views.\<close>

lemma fbc_convert_views:
  assumes "valid_envelope K b" "config_has_room K cfg"
  shows "\<exists>vs. emitted_views (fbc_convert K (Some b) (Some cfg)) = Some vs
            \<and> map Some vs = map (declared_view (memory0 b)) (declared_tensors b)"
proof -
  from assms(1) obtain ts fr where
    e: "mappable (memory0 b)" "fb_fr (mapped (memory0 b)) = Some fr"
      "unat (fb_num_tensor (mapped (memory0 b))) \<le> SIZE_LIMIT K"
      "fb_tensor (mapped (memory0 b)) = Some ts"
      "length ts = unat (fb_num_tensor (mapped (memory0 b)))"
      "list_all (tensor_readable K) ts"
    by (auto simp: valid_envelope_def split: option.splits)
  let ?cfg2 = "cfg\<lparr>tensors_info := (tensors_info cfg)
                 \<lparr>num_tensors := fb_num_tensor (mapped (memory0 b)),
                  format := fb_format (mapped (memory0 b))\<rparr>,
               rate_n := fb_rate_n fr, rate_d := fb_rate_d fr\<rparr>"
  let ?st = "\<lparr>ls_config = ?cfg2, ls_memories = [],
              ls_calls = [buffer_peek_memory, memory_map, GetTensors] @ [buffer_new]\<rparr>"
  have "\<forall>i\<in>set [0..<length ts]. i < length ts \<and> i < length (info (tensors_info (ls_config ?st)))"
    using e(3,5) assms(2) by (simp add: config_has_room_def)
  from convert_tensors_ok [OF e(6) this, of "memory0 b"] obtain st' where
    st': "convert_tensors K (memory0 b) (Some ts) [0..<length ts] ?st = Inr st'"
      "map Some (ls_memories st') = map (\<lambda>i. declared_view (memory0 b) (ts ! i)) [0..<length ts]"
    by auto
  have "map (\<lambda>i. declared_view (memory0 b) (ts ! i)) [0..<length ts] = map (declared_view (memory0 b)) ts"
    by (rule nth_equalityI) simp_all
  with st' e show ?thesis
    by (simp add: fbc_convert_def Let_def emitted_views_def declared_tensors_def)
qed


section \<open>The converter: results\<close>

text \<open>
  Claim C10. When the input buffer or the config passed to \<^verbatim>\<open>fbc_convert\<close> is NULL,
  the call returns NULL; it logs an error and makes no other call, so the envelope is
  not read and no view is made; the other argument is left as it was.
\<close>

theorem fbc_convert_null_argument:
  "in_buf = None \<or> config = None \<Longrightarrow>
   fbc_convert K in_buf config = Inr \<lparr>out_buf = None, config_after = config, calls = [log_error]\<rparr>"
  by (auto simp: fbc_convert_def split: option.splits)

text \<open>Claim C10 at a null buffer with a config, and at a buffer with a null config.\<close>

theorem fbc_convert_null_argument_witness:
  "fbc_convert K0 None (Some cfg0)
     = Inr \<lparr>out_buf = None, config_after = Some cfg0, calls = [log_error]\<rparr>
   \<and> fbc_convert K0 (Some two_tensor_buffer) None
     = Inr \<lparr>out_buf = None, config_after = None, calls = [log_error]\<rparr>"
  using fbc_convert_null_argument [of None "Some cfg0" K0]
    fbc_convert_null_argument [of "Some two_tensor_buffer" None K0]
  by simp

text \<open>
  Claim C2. When the envelope declares more tensors than \<^verbatim>\<open>NNS_TENSOR_SIZE_LIMIT\<close>,
  \<^verbatim>\<open>fbc_convert\<close> returns NULL, whatever the config argument; no output buffer is
  made and no memory is shared.
\<close>

theorem fbc_convert_too_many_tensors:
  "SIZE_LIMIT K < unat (fb_num_tensor (mapped (memory0 b))) \<Longrightarrow>
   \<exists>r. fbc_convert K (Some b) config = Inr r \<and> out_buf r = None
      \<and> buffer_new \<notin> set (calls r) \<and> (\<forall>off n. memory_share off n \<notin> set (calls r))"
  by (auto simp: fbc_convert_def Let_def split: option.splits)

text \<open>Claim C2 at the envelope of 17 tensors, with the limit 16.\<close>

theorem fbc_convert_too_many_tensors_witness:
  "SIZE_LIMIT K0 < unat (fb_num_tensor (mapped (memory0 crowded_buffer)))
   \<and> (\<exists>r. fbc_convert K0 (Some crowded_buffer) (Some cfg0) = Inr r \<and> out_buf r = None
          \<and> buffer_new \<notin> set (calls r) \<and> (\<forall>off n. memory_share off n \<notin> set (calls r)))"
proof -
  have over: "SIZE_LIMIT K0 < unat (fb_num_tensor (mapped (memory0 crowded_buffer)))"
    by (simp add: K0_def crowded_buffer_def)
  from fbc_convert_too_many_tensors [OF over, of "Some cfg0"] over show ?thesis
    by blast
qed

text \<open>
  Claim C3, as stated, fails. The envelope of 17 tensors makes \<^verbatim>\<open>fbc_convert\<close> return
  NULL, and the config that held 0 tensors and format 0 then holds 17 and 1: lines 95
  and 96 store both before line 98 tests the count.
\<close>

theorem config_changed_on_too_many_counterexample:
  "SIZE_LIMIT K0 < unat (fb_num_tensor (mapped (memory0 crowded_buffer)))
   \<and> emitted_views (fbc_convert K0 (Some crowded_buffer) (Some cfg0)) = None
   \<and> config_left (fbc_convert K0 (Some crowded_buffer) (Some cfg0))
       = Some (cfg0\<lparr>tensors_info := (tensors_info cfg0)\<lparr>num_tensors := 17, format := 1\<rparr>\<rparr>)
   \<and> config_left (fbc_convert K0 (Some crowded_buffer) (Some cfg0)) \<noteq> Some cfg0"
  by (simp add: fbc_convert_def Let_def emitted_views_def config_left_def crowded_buffer_def
      K0_def cfg0_def gst_tensors_info_init_def)

text \<open>
  Claim C3, amended. When the count exceeds the limit, \<^verbatim>\<open>fbc_convert\<close> returns NULL
  and makes no buffer; of the config, the frame rate and every per-tensor slot are as
  before the call, while \<^verbatim>\<open>info.num_tensors\<close> and \<^verbatim>\<open>info.format\<close> hold the values
  of the envelope.
\<close>

theorem config_after_too_many:
  assumes "mappable (memory0 b)"
    and "SIZE_LIMIT K < unat (fb_num_tensor (mapped (memory0 b)))"
  shows "\<exists>cfg'. config_left (fbc_convert K (Some b) (Some cfg)) = Some cfg'
           \<and> emitted_views (fbc_convert K (Some b) (Some cfg)) = None
           \<and> rate_n cfg' = rate_n cfg \<and> rate_d cfg' = rate_d cfg
           \<and> info (tensors_info cfg') = info (tensors_info cfg)
           \<and> num_tensors (tensors_info cfg') = fb_num_tensor (mapped (memory0 b))
           \<and> format (tensors_info cfg') = fb_format (mapped (memory0 b))"
  using assms
  by (simp add: fbc_convert_def Let_def emitted_views_def config_left_def)

text \<open>Claim C3, amended, at the envelope of 17 tensors.\<close>

theorem config_after_too_many_witness:
  "mappable (memory0 crowded_buffer)
   \<and> SIZE_LIMIT K0 < unat (fb_num_tensor (mapped (memory0 crowded_buffer)))
   \<and> (\<exists>cfg'. config_left (fbc_convert K0 (Some crowded_buffer) (Some cfg0)) = Some cfg'
          \<and> emitted_views (fbc_convert K0 (Some crowded_buffer) (Some cfg0)) = None
          \<and> rate_n cfg' = 0 \<and> rate_d cfg' = 0
          \<and> info (tensors_info cfg') = info (tensors_info cfg0)
          \<and> num_tensors (tensors_info cfg') = 17 \<and> format (tensors_info cfg') = 1)"
proof -
  have m: "mappable (memory0 crowded_buffer)"
    by (simp add: crowded_buffer_def)
  have over: "SIZE_LIMIT K0 < unat (fb_num_tensor (mapped (memory0 crowded_buffer)))"
    by (simp add: K0_def crowded_buffer_def)
  from config_after_too_many [OF m over, of cfg0] obtain cfg' where
    "config_left (fbc_convert K0 (Some crowded_buffer) (Some cfg0)) = Some cfg'"
    "emitted_views (fbc_convert K0 (Some crowded_buffer) (Some cfg0)) = None"
    "rate_n cfg' = rate_n cfg0" "rate_d cfg' = rate_d cfg0"
    "info (tensors_info cfg') = info (tensors_info cfg0)"
    "num_tensors (tensors_info cfg') = fb_num_tensor (mapped (memory0 crowded_buffer))"
    "format (tensors_info cfg') = fb_format (mapped (memory0 crowded_buffer))"
    by blast
  with m over show ?thesis
    by (simp add: cfg0_def crowded_buffer_def)
qed

text \<open>
  When every tensor of the envelope carries a name string, which may be empty,
  \<^verbatim>\<open>fbc_convert\<close> returns a buffer with one memory for each declared tensor, in the
  order of the envelope; each memory is a share of the input memory at the place and
  with the length of the tensor's data vector.
\<close>

lemma one_view_per_named_tensor:
  assumes "valid_envelope K b" "config_has_room K cfg"
  shows "\<exists>vs. emitted_views (fbc_convert K (Some b) (Some cfg)) = Some vs
            \<and> length vs = length (declared_tensors b)
            \<and> map Some vs = map (declared_view (memory0 b)) (declared_tensors b)
            \<and> (\<forall>v\<in>set vs. parent v = mem_id (memory0 b))"
proof -
  from fbc_convert_views [OF assms] obtain vs where
    vs: "emitted_views (fbc_convert K (Some b) (Some cfg)) = Some vs"
      "map Some vs = map (declared_view (memory0 b)) (declared_tensors b)"
    by blast
  from vs(2) have len: "length vs = length (declared_tensors b)"
    by (metis length_map)
  have "parent v = mem_id (memory0 b)" if "v \<in> set vs" for v
  proof -
    from that have "Some v \<in> set (map (declared_view (memory0 b)) (declared_tensors b))"
      unfolding vs(2) [symmetric] by simp
    then show ?thesis
      by (auto simp: declared_view_def map_option_case split: option.splits)
  qed
  with vs len show ?thesis by blast
qed

text \<open>
  The scenario of two tensors, 48 bytes at offset 64 and 10 bytes at offset 112, in a
  buffer of 8192 bytes, the second tensor with the empty name. The output holds the
  views (64, 48) and (112, 10), in that order, both on the input memory, which is
  memory 1.
\<close>

lemma two_tensor_scenario_views:
  "valid_envelope K0 two_tensor_buffer \<and> config_has_room K0 cfg0
   \<and> emitted_views (fbc_convert K0 (Some two_tensor_buffer) (Some cfg0))
       = Some [\<lparr>parent = 1, offset = 64, length_bytes = 48\<rparr>,
               \<lparr>parent = 1, offset = 112, length_bytes = 10\<rparr>]"
proof -
  have v: "valid_envelope K0 two_tensor_buffer"
    by (simp add: valid_envelope_def tensor_readable_def two_tensor_buffer_def two_tensors_def K0_def)
  have r: "config_has_room K0 cfg0"
    by (simp add: config_has_room_def cfg0_def gst_tensors_info_init_def K0_def)
  from one_view_per_named_tensor [OF v r] obtain vs where
    vs: "emitted_views (fbc_convert K0 (Some two_tensor_buffer) (Some cfg0)) = Some vs"
      "map Some vs = map (declared_view (memory0 two_tensor_buffer)) (declared_tensors two_tensor_buffer)"
    by blast
  have "map (declared_view (memory0 two_tensor_buffer)) (declared_tensors two_tensor_buffer)
          = map Some [\<lparr>parent = 1, offset = 64, length_bytes = 48\<rparr>,
                      \<lparr>parent = 1, offset = 112, length_bytes = 10\<rparr>]"
    by (simp add: declared_view_def declared_tensors_def two_tensor_buffer_def two_tensors_def)
  with vs(2) have "map Some vs = map Some [\<lparr>parent = 1, offset = 64, length_bytes = 48\<rparr>,
                                           \<lparr>parent = 1, offset = 112, length_bytes = 10\<rparr>]"
    by (simp only:)
  then have "vs = [\<lparr>parent = 1, offset = 64, length_bytes = 48\<rparr>,
                   \<lparr>parent = 1, offset = 112, length_bytes = 10\<rparr>]"
    by (rule map_injective) simp
  with v r vs(1) show ?thesis by simp
qed

text \<open>
  Claim C7 says that every valid envelope yields one view for each declared tensor, in
  the declared order. On the code this fails for an envelope that leaves a name out,
  which the envelope layout allows ("name: optional string"). Line 116 is meant to store
  no name for such a tensor (\<^verbatim>\<open>name && strlen (name) > 0\<close>), but line 110 has
  already called \<^verbatim>\<open>name ()->str ()\<close> on the null pointer. In the scenario of two
  tensors with the second name left out, the first view is shared and then the call has
  undefined behaviour: no buffer is returned and no view of the second tensor is made.
\<close>

theorem unnamed_tensor_faults:
  "fb_tensor (mapped (memory0 unnamed_tensor_buffer)) = Some (declared_tensors unnamed_tensor_buffer)
   \<and> length (declared_tensors unnamed_tensor_buffer) = 2
   \<and> fb_name (declared_tensors unnamed_tensor_buffer ! 1) = None
   \<and> fbc_convert K0 (Some unnamed_tensor_buffer) (Some cfg0) = Inl NullDeref
   \<and> emitted_views (fbc_convert K0 (Some unnamed_tensor_buffer) (Some cfg0)) = None"
  by code_simp




section \<open>The filter: helper facts\<close>

text \<open>The loop of lines 196 to 204 adds one span for each size, in the order of the sizes.\<close>

lemma plan_buffers_sizes:
  "plan_buffers sizes h spans = (h', spans') \<Longrightarrow> map snd spans' = map snd spans @ sizes"
  by (induction sizes arbitrary: h spans) (auto simp: make_unique_def)

lemma plan_buffers_length:
  assumes "plan_buffers sizes h [] = (h', spans')"
  shows "length spans' = length sizes"
proof -
  from plan_buffers_sizes [OF assms] have "map snd spans' = sizes" by simp
  then show ?thesis by (metis length_map)
qed

text \<open>After the owner vector is destroyed, no array it owned is on the heap.\<close>

lemma live_destroy_planned_buffers:
  "set (live (destroy_planned_buffers spans h)) = {e \<in> set (live h). fst e \<notin> fst ` set spans}"
  by (induction spans arbitrary: h) (auto simp: free_array_def)

text \<open>\<^verbatim>\<open>cleanup\<close> stores nothing in \<^verbatim>\<open>method\<close>.\<close>

lemma cleanup_keeps_method_result: "method_result (cleanup K s) = method_result s"
  by (simp add: cleanup_def Let_def)

text \<open>What a call that returns with the instance configured has done.\<close>

lemma configure_success:
  assumes "configure_instance K E prop (s, h) = Returns (s', h')" "configured s'"
  shows "\<exists>path rest mname sizes h1 spans.
           model_files prop = path # rest \<and> get_method_name E path = Some mname
         \<and> method_meta E path mname = Some sizes \<and> plan_buffers sizes h [] = (h1, spans)
         \<and> method_result s' = Some (Inr \<lparr>program_file = path, loaded_method = mname,
                                          planned_memory = map fst spans\<rparr>)
         \<and> model_path s' = Some path \<and> method_name s' = Some mname
         \<and> h' = destroy_planned_buffers spans h1"
  using assms
  by (auto simp: configure_instance_def Let_def cleanup_def
      split: list.splits if_splits option.splits prod.splits Error.splits)

lemma configure_good_engine:
  "configure_instance K0 good_engine prop_model (new_instance K0, empty_heap)
     = Returns (configured_example, \<lparr>next_addr = 2, live = []\<rparr>)"
  by (simp add: configure_instance_def good_engine_def prop_model_def new_instance_def
      empty_heap_def configured_example_def make_unique_def free_array_def Let_def)

text \<open>\<^verbatim>\<open>invoke\<close> leaves the instance as it was whenever it returns or throws.\<close>

lemma invoke_keeps_instance:
  "invoke E input output s = Returns s' \<or> invoke E input output s = Throws x s' \<Longrightarrow> s' = s"
  by (auto simp: invoke_def split: option.splits sum.splits outcome.splits if_splits)

section \<open>The filter: results\<close>

text \<open>
  Claim C4 says that \<^verbatim>\<open>invoke\<close> on an instance that is not configured is rejected
  with an error. On the code this fails. Line 242 is meant to reject such a call, but a
  new instance holds a null \<^verbatim>\<open>method\<close>, and \<^verbatim>\<open>method->ok ()\<close> dereferences it:
  with an input and an output at hand the call has undefined behaviour and throws
  nothing.
\<close>

theorem invoke_on_new_instance:
  "invoke E (Some inp) (Some outp) (new_instance K) = Faults NullDeref"
  by (simp add: invoke_def new_instance_def)

text \<open>
  Claim C5, as stated, fails. On a configured instance, with an engine whose
  \<^verbatim>\<open>execute\<close> answers an error, \<^verbatim>\<open>invoke\<close> neither returns nor throws: the
  \<^verbatim>\<open>ET_CHECK_MSG\<close> of line 258 aborts the process.
\<close>

theorem invoke_execute_failure_counterexample:
  "invoke execute_fails (Some []) (Some []) configured_example = Aborts"
  by (simp add: invoke_def execute_fails_def good_engine_def configured_example_def
      gst_tensors_info_init_def)

text \<open>
  Claim C5, amended. When the inputs have been bound and the engine's \<^verbatim>\<open>execute\<close>
  answers a status other than Ok, \<^verbatim>\<open>invoke\<close> aborts the process: no error reaches
  the caller, no output is fetched, and no later call is possible.
\<close>

theorem invoke_execute_failure_aborts:
  assumes "method_result s = Some (Inr m)"
    and "set_inputs E m (inputInfo s) inp [0..<unat (num_tensors (inputInfo s))] = Returns ()"
    and "execute E m \<noteq> Ok"
  shows "invoke E (Some inp) (Some outp) s = Aborts"
  using assms by (simp add: invoke_def)

text \<open>Claim C5, amended, at the configured example with an engine that answers error 18.\<close>

theorem invoke_execute_failure_aborts_witness:
  "method_result configured_example
     = Some (Inr \<lparr>program_file = ''model.pte'', loaded_method = ''forward'', planned_memory = [0, 1]\<rparr>)
   \<and> set_inputs execute_fails_later
        \<lparr>program_file = ''model.pte'', loaded_method = ''forward'', planned_memory = [0, 1]\<rparr>
        (inputInfo configured_example) [] [0..<unat (num_tensors (inputInfo configured_example))]
      = Returns ()
   \<and> execute execute_fails_later
        \<lparr>program_file = ''model.pte'', loaded_method = ''forward'', planned_memory = [0, 1]\<rparr> \<noteq> Ok
   \<and> invoke execute_fails_later (Some []) (Some []) configured_example = Aborts"
proof -
  let ?m = "\<lparr>program_file = ''model.pte'', loaded_method = ''forward'', planned_memory = [0, 1]\<rparr>"
  have a: "method_result configured_example = Some (Inr ?m)"
    by (simp add: configured_example_def)
  have b: "set_inputs execute_fails_later ?m (inputInfo configured_example) []
             [0..<unat (num_tensors (inputInfo configured_example))] = Returns ()"
    by (simp add: configured_example_def gst_tensors_info_init_def)
  have c: "execute execute_fails_later ?m \<noteq> Ok"
    by (simp add: execute_fails_later_def good_engine_def)
  from invoke_execute_failure_aborts [OF a b c, of "[]"] a b c show ?thesis
    by simp
qed

text \<open>
  Claim C6 says that the planned buffers are allocated once per configure, one for each
  declared size, and stay owned across the calls of \<^verbatim>\<open>invoke\<close>. The first half holds
  (\<open>plan_buffers_sizes\<close>). The second fails on the code: the owner,
  \<^verbatim>\<open>planned_buffers\<close>, is a local variable of \<^verbatim>\<open>configure_instance\<close>, so whenever
  the call returns with the instance configured, every buffer handed to the loaded
  method has already been freed.
\<close>

theorem planned_buffers_freed_on_return:
  assumes "configure_instance K E prop (s, h) = Returns (s', h')" "configured s'"
  shows "\<exists>m path mname sizes.
           method_result s' = Some (Inr m) \<and> model_path s' = Some path \<and> method_name s' = Some mname
         \<and> method_meta E path mname = Some sizes
         \<and> length (planned_memory m) = length sizes
         \<and> (\<forall>a\<in>set (planned_memory m). a \<notin> fst ` set (live h'))"
proof -
  from configure_success [OF assms] obtain path rest mname sizes h1 spans where
    c: "model_files prop = path # rest" "get_method_name E path = Some mname"
      "method_meta E path mname = Some sizes" "plan_buffers sizes h [] = (h1, spans)"
      "method_result s' = Some (Inr \<lparr>program_file = path, loaded_method = mname,
                                     planned_memory = map fst spans\<rparr>)"
      "model_path s' = Some path" "method_name s' = Some mname"
      "h' = destroy_planned_buffers spans h1"
    by blast
  have "\<forall>a\<in>set (map fst spans). a \<notin> fst ` set (live h')"
    unfolding c(8) live_destroy_planned_buffers by force
  with c plan_buffers_length [OF c(4)] show ?thesis by simp
qed

text \<open>
  Claim C6 on the code, at the first configure of a new instance with the engine that
  declares planned buffers of 16 and 32 bytes: the method is bound to the arrays 0 and
  1, and the heap holds no array when the call returns.
\<close>

theorem planned_buffers_freed_on_return_witness:
  "configure_instance K0 good_engine prop_model (new_instance K0, empty_heap)
     = Returns (configured_example, \<lparr>next_addr = 2, live = []\<rparr>)
   \<and> configured configured_example
   \<and> method_meta good_engine ''model.pte'' ''forward'' = Some [16, 32]
   \<and> (\<exists>m. method_result configured_example = Some (Inr m) \<and> planned_memory m = [0, 1]
          \<and> (\<forall>a\<in>set (planned_memory m). a \<notin> fst ` set (live \<lparr>next_addr = 2, live = []\<rparr>)))"
proof -
  have c: "configured configured_example"
    by (simp add: configured_example_def)
  from planned_buffers_freed_on_return [OF configure_good_engine c] configure_good_engine c
  show ?thesis
    by (simp add: configured_example_def good_engine_def)
qed

text \<open>
  Claim C8 says that a second configure tears down all of the first configuration, so
  that none of its resources survives. On the code this fails for the loaded method:
  \<^verbatim>\<open>cleanup\<close> releases the model path and the tensor metadata and clears
  \<^verbatim>\<open>method_name\<close>, but it never resets \<^verbatim>\<open>method\<close>. After a configured instance is
  configured again with a file that does not exist, the call throws, the instance is not
  configured, and it still holds the method of the first configuration; \<^verbatim>\<open>invoke\<close>
  then runs that method.
\<close>

theorem reconfigure_keeps_old_method:
  "configure_instance K0 good_engine prop_missing (configured_example, h)
     = Throws (invalid_argument ''Given file missing.pte is not valid'') (stale_example, h)
   \<and> \<not> configured stale_example
   \<and> method_result stale_example = method_result configured_example
   \<and> method_result configured_example \<noteq> None
   \<and> invoke good_engine (Some []) (Some []) stale_example = Returns stale_example"
  by (simp add: configure_instance_def invoke_def good_engine_def prop_missing_def
      configured_example_def stale_example_def new_instance_def cleanup_def
      gst_tensors_info_free_def gst_tensors_info_init_def not_valid_message_def Let_def)

text \<open>
  Claim C9, as stated, fails. When loading the method fails the process is aborted, so
  the call does not return at all; when parsing the program fails the call returns
  with the copied model path still held.
\<close>

theorem configure_failure_counterexample:
  "configure_instance K0 method_load_fails prop_model (new_instance K0, empty_heap) = Aborts
   \<and> configure_instance K0 program_load_fails prop_model (new_instance K0, empty_heap)
       = Returns ((new_instance K0)\<lparr>model_path := Some ''model.pte''\<rparr>, empty_heap)"
  by (simp add: configure_instance_def method_load_fails_def program_load_fails_def good_engine_def
      prop_model_def new_instance_def empty_heap_def make_unique_def Let_def)

text \<open>
  Claim C9, amended. When the model file is not a regular file, \<^verbatim>\<open>configure_instance\<close>
  throws \<^verbatim>\<open>std::invalid_argument\<close> after \<^verbatim>\<open>cleanup\<close>: the instance is not configured
  and holds no model path, and the heap is as before. When the data loader, the method
  name, the method metadata or the loading of the method fails, the process is aborted.
  When parsing the program fails, the call returns and the instance is not configured.
\<close>

theorem configure_failure:
  assumes "model_files prop = path # rest"
  shows
    "(\<not> file_test_is_regular E path \<longrightarrow>
        (\<exists>s'. configure_instance K E prop (s, h)
                 = Throws (invalid_argument (not_valid_message path)) (s', h)
             \<and> \<not> configured s' \<and> model_path s' = None))
     \<and> (file_test_is_regular E path \<and> FileDataLoader_from E path \<noteq> Ok \<longrightarrow>
          configure_instance K E prop (s, h) = Aborts)
     \<and> (file_test_is_regular E path \<and> FileDataLoader_from E path = Ok
          \<and> Program_load E path \<noteq> Ok \<longrightarrow>
          (\<exists>s'. configure_instance K E prop (s, h) = Returns (s', h) \<and> \<not> configured s'))
     \<and> (file_test_is_regular E path \<and> FileDataLoader_from E path = Ok
          \<and> Program_load E path = Ok
          \<and> (get_method_name E path = None
             \<or> (\<exists>mname. get_method_name E path = Some mname
                  \<and> (method_meta E path mname = None \<or> load_method E path mname \<noteq> Ok))) \<longrightarrow>
          configure_instance K E prop (s, h) = Aborts)"
  using assms
  by (auto simp: configure_instance_def Let_def cleanup_def
      split: option.splits prod.splits Error.splits)

text \<open>
  Claim C9, amended, at four calls on the configured example: a missing file, a data
  loader that fails, a program that does not parse, and a method that does not load.
\<close>

theorem configure_failure_witness:
  "model_files prop_missing = [''missing.pte''] \<and> \<not> file_test_is_regular good_engine ''missing.pte''
   \<and> (\<exists>s'. configure_instance K0 good_engine prop_missing (configured_example, empty_heap)
              = Throws (invalid_argument (not_valid_message ''missing.pte'')) (s', empty_heap)
          \<and> \<not> configured s' \<and> model_path s' = None)
   \<and> model_files prop_model = [''model.pte'']
   \<and> file_test_is_regular loader_fails ''model.pte''
   \<and> FileDataLoader_from loader_fails ''model.pte'' \<noteq> Ok
   \<and> configure_instance K0 loader_fails prop_model (configured_example, empty_heap) = Aborts
   \<and> file_test_is_regular program_load_fails ''model.pte''
   \<and> FileDataLoader_from program_load_fails ''model.pte'' = Ok
   \<and> Program_load program_load_fails ''model.pte'' \<noteq> Ok
   \<and> (\<exists>s'. configure_instance K0 program_load_fails prop_model (configured_example, empty_heap)
              = Returns (s', empty_heap) \<and> \<not> configured s')
   \<and> file_test_is_regular method_load_fails ''model.pte''
   \<and> FileDataLoader_from method_load_fails ''model.pte'' = Ok
   \<and> Program_load method_load_fails ''model.pte'' = Ok
   \<and> get_method_name method_load_fails ''model.pte'' = Some ''forward''
   \<and> load_method method_load_fails ''model.pte'' ''forward'' \<noteq> Ok
   \<and> configure_instance K0 method_load_fails prop_model (configured_example, empty_heap) = Aborts"
proof -
  have p1: "model_files prop_missing = [''missing.pte'']"
    by (simp add: prop_missing_def)
  have p2: "model_files prop_model = [''model.pte'']"
    by (simp add: prop_model_def)
  have e1: "\<not> file_test_is_regular good_engine ''missing.pte''"
    by (simp add: good_engine_def)
  have e2: "file_test_is_regular loader_fails ''model.pte''"
    "FileDataLoader_from loader_fails ''model.pte'' \<noteq> Ok"
    by (simp_all add: loader_fails_def good_engine_def)
  have e3: "file_test_is_regular program_load_fails ''model.pte''"
    "FileDataLoader_from program_load_fails ''model.pte'' = Ok"
    "Program_load program_load_fails ''model.pte'' \<noteq> Ok"
    by (simp_all add: program_load_fails_def good_engine_def)
  have e4: "file_test_is_regular method_load_fails ''model.pte''"
    "FileDataLoader_from method_load_fails ''model.pte'' = Ok"
    "Program_load method_load_fails ''model.pte'' = Ok"
    "get_method_name method_load_fails ''model.pte'' = Some ''forward''"
    "load_method method_load_fails ''model.pte'' ''forward'' \<noteq> Ok"
    by (simp_all add: method_load_fails_def good_engine_def)
  note c1 = configure_failure [OF p1, of good_engine K0 configured_example empty_heap]
  note c2 = configure_failure [OF p2, of loader_fails K0 configured_example empty_heap]
  note c3 = configure_failure [OF p2, of program_load_fails K0 configured_example empty_heap]
  note c4 = configure_failure [OF p2, of method_load_fails K0 configured_example empty_heap]
  from c1 e1 have r1:
    "\<exists>s'. configure_instance K0 good_engine prop_missing (configured_example, empty_heap)
             = Throws (invalid_argument (not_valid_message ''missing.pte'')) (s', empty_heap)
         \<and> \<not> configured s' \<and> model_path s' = None"
    by blast
  from c2 e2 have r2:
    "configure_instance K0 loader_fails prop_model (configured_example, empty_heap) = Aborts"
    by blast
  from c3 e3 have r3:
    "\<exists>s'. configure_instance K0 program_load_fails prop_model (configured_example, empty_heap)
             = Returns (s', empty_heap) \<and> \<not> configured s'"
    by blast
  from c4 e4 have r4:
    "configure_instance K0 method_load_fails prop_model (configured_example, empty_heap) = Aborts"
    by blast
  from p1 p2 e1 e2 e3 e4 r1 r2 r3 r4 show ?thesis
    by blast
qed

end
